theory Spec2Isabelle
  imports Complex_Main "HOL-Library.Word"
begin

section \<open>JavaScript strings\<close>

text \<open>
  A JavaScript string is a sequence of UTF-16 code units; \<open>length\<close>, \<open>substring\<close>,
  \<open>includes\<close> and the regular expression class \<open>\s\<close> all work on code units. A
  "character" below is one code unit, as \<open>String.prototype.length\<close> counts them.
\<close>

type_synonym jsstring = "16 word list"

definition lit :: "string \<Rightarrow> jsstring" where
  "lit s = map (\<lambda>c. of_nat (of_char c)) s"

definition nl :: jsstring where
  "nl = [0x0A]"

definition dq :: jsstring where
  "dq = [0x22]"

definition bullet :: jsstring where
  "bullet = [0x2022]"

text \<open>\<open>!s\<close> for a value of type \<open>string | undefined\<close>: undefined and the empty string are falsy.\<close>

definition falsy :: "jsstring option \<Rightarrow> bool" where
  "falsy s = (case s of None \<Rightarrow> True | Some t \<Rightarrow> t = [])"

text \<open>\<open>s || d\<close> for a value of type \<open>string | undefined\<close>.\<close>

definition or_else :: "jsstring option \<Rightarrow> jsstring \<Rightarrow> jsstring" where
  "or_else s d = (case s of None \<Rightarrow> d | Some t \<Rightarrow> if t = [] then d else t)"

text \<open>The code units matched by \<open>\s\<close> (WhiteSpace and LineTerminator of ECMAScript).\<close>

definition is_space :: "16 word \<Rightarrow> bool" where
  "is_space c =
     (c = 0x09 \<or> c = 0x0A \<or> c = 0x0B \<or> c = 0x0C \<or> c = 0x0D \<or> c = 0x20 \<or> c = 0xA0
      \<or> c = 0x1680 \<or> (0x2000 \<le> c \<and> c \<le> 0x200A) \<or> c = 0x2028 \<or> c = 0x2029
      \<or> c = 0x202F \<or> c = 0x205F \<or> c = 0x3000 \<or> c = 0xFEFF)"

text \<open>\<open>s.replace(/\s/g, '')\<close>\<close>

definition strip_ws :: "jsstring \<Rightarrow> jsstring" where
  "strip_ws s = filter (\<lambda>c. \<not> is_space c) s"

text \<open>\<open>s.trim()\<close>\<close>

definition trim :: "jsstring \<Rightarrow> jsstring" where
  "trim s = rev (dropWhile is_space (rev (dropWhile is_space s)))"

definition startsWith :: "jsstring \<Rightarrow> jsstring \<Rightarrow> bool" where
  "startsWith s p = (take (length p) s = p)"

definition endsWith :: "jsstring \<Rightarrow> jsstring \<Rightarrow> bool" where
  "endsWith s p = (length p \<le> length s \<and> drop (length s - length p) s = p)"

text \<open>\<open>s.includes(sub)\<close>: \<open>sub\<close> occurs at some position of \<open>s\<close>.\<close>

fun includes_str :: "jsstring \<Rightarrow> jsstring \<Rightarrow> bool" where
  "includes_str [] sub = (sub = [])"
| "includes_str (c # cs) sub = (startsWith (c # cs) sub \<or> includes_str cs sub)"

text \<open>\<open>s.substring(0, n)\<close>\<close>

definition substring0 :: "jsstring \<Rightarrow> nat \<Rightarrow> jsstring" where
  "substring0 s n = take n s"

text \<open>
  \<open>items.map(item => item.str).join(' ')\<close>: an item without \<open>str\<close> (undefined) is
  joined as the empty string.
\<close>

fun join_sp :: "jsstring option list \<Rightarrow> jsstring" where
  "join_sp [] = []"
| "join_sp [x] = or_else x []"
| "join_sp (x # y # ys) = or_else x [] @ [0x20] @ join_sp (y # ys)"

text \<open>
  Decimal rendering of a number inside a template literal, for the integers the program
  renders (page numbers, scores, millisecond clock readings: all below \<open>10^21\<close>, where
  JavaScript switches to exponent notation).
\<close>

function dec_nat :: "nat \<Rightarrow> jsstring" where
  "dec_nat n = (if n < 10 then [of_nat (48 + n)] else dec_nat (n div 10) @ [of_nat (48 + n mod 10)])"
  by pat_completeness auto
termination
  by (relation "measure id") auto

declare dec_nat.simps [simp del]

definition num_toString :: "int \<Rightarrow> jsstring" where
  "num_toString i = (if i < 0 then lit ''-'' @ dec_nat (nat (- i)) else dec_nat (nat i))"

section \<open>The data model (types.ts)\<close>

datatype RiskLevel = LOW | MEDIUM | HIGH

fun riskLevel_str :: "RiskLevel \<Rightarrow> jsstring" where
  "riskLevel_str LOW = lit ''Low''"
| "riskLevel_str MEDIUM = lit ''Medium''"
| "riskLevel_str HIGH = lit ''High''"

datatype Domain = Property | Employment | Financial | Commercial | Consumer | IT | Other

fun domain_str :: "Domain \<Rightarrow> jsstring" where
  "domain_str Property = lit ''Property''"
| "domain_str Employment = lit ''Employment''"
| "domain_str Financial = lit ''Financial''"
| "domain_str Commercial = lit ''Commercial''"
| "domain_str Consumer = lit ''Consumer''"
| "domain_str IT = lit ''IT''"
| "domain_str Other = lit ''Other''"

record Clause =
  clause_id :: int
  title :: jsstring
  clause_text :: jsstring
  riskLevel :: RiskLevel
  explanation :: jsstring
  indianLawReference :: jsstring
  suggestion :: "jsstring option"

record AnalysisResult =
  summary :: jsstring
  domain :: Domain
  clauses :: "Clause list"
  overallRiskScore :: int
  redFlags :: "jsstring list"
  nextSteps :: "jsstring list"

datatype Role = RoleUser | RoleModel

record ChatMessage =
  msg_id :: jsstring
  role :: Role
  msg_text :: jsstring
  timestamp :: int

section \<open>The analysis client (services/geminiService.ts)\<close>

text \<open>A thrown JavaScript \<open>Error\<close> with its message.\<close>

datatype error = Error jsstring

text \<open>A \<open>generateContent\<close> request: model, contents and the optional configuration.\<close>

record gen_request =
  req_model :: jsstring
  req_contents :: jsstring
  req_responseMimeType :: "jsstring option"
  req_responseSchema :: bool
  req_systemInstruction :: "jsstring option"

text \<open>The chat handle made by \<open>ai.chats.create\<close>, with the turns it has answered.\<close>

record chat =
  chat_model :: jsstring
  chat_systemInstruction :: jsstring
  chat_history :: "(jsstring \<times> jsstring option) list"

text \<open>
  The hosted model and \<open>JSON.parse\<close> are outside the program: they are parameters. Each
  either throws or returns; \<open>response.text\<close> may be undefined.
\<close>

record ai_service =
  generateContent :: "gen_request \<Rightarrow> error + jsstring option"
  chat_sendMessage :: "chat \<Rightarrow> jsstring \<Rightarrow> error + jsstring option"
  json_parse :: "jsstring \<Rightarrow> error + AnalysisResult"

text \<open>
  The module's state: the global \<open>chatSession\<close>, and the requests submitted to the model
  so far (oldest first), which is what the service observes of the program.
\<close>

record service =
  chatSession :: "chat option"
  submitted :: "gen_request list"

definition init_service :: service where
  "init_service = \<lparr>chatSession = None, submitted = []\<rparr>"

definition ANALYSIS_MODEL :: jsstring where
  "ANALYSIS_MODEL = lit ''gemini-2.5-flash''"

definition CHAT_MODEL :: jsstring where
  "CHAT_MODEL = lit ''gemini-2.5-flash''"

definition analysis_prompt_head :: jsstring where
  "analysis_prompt_head = concat
    [nl, lit ''    You are LegalLens India, an expert Indian legal assistant. '',
     nl, lit ''    Analyze the following legal document text. '',
     nl, lit ''    Identify key clauses, assess their risk based on Indian Law (IPC, Contract Act, Companies Act, etc.), '',
     nl, lit ''    and provide a structured analysis.'',
     nl, lit ''    '',
     nl, lit ''    Also provide 3-5 specific '', dq, lit ''Next Steps'', dq, lit '' regarding:'',
     nl, lit ''    1. Is Notarization or Registration mandatory? (e.g., Rent agreements > 11 months).'',
     nl, lit ''    2. Stamp duty implications.'',
     nl, lit ''    3. Recommended dispute resolution method (Arbitration vs Court).'',
     nl, lit ''    '',
     nl, lit ''    Document Text:'',
     nl, lit ''    '', dq, dq, dq]"

definition analysis_prompt_tail :: jsstring where
  "analysis_prompt_tail = concat
    [dq, dq, dq, lit '' '',
     nl, lit ''    '',
     nl, lit ''    Ensure strict adherence to the output JSON schema.'',
     nl, lit ''  '']"

definition analysis_request :: "jsstring \<Rightarrow> gen_request" where
  "analysis_request text =
     \<lparr>req_model = ANALYSIS_MODEL,
      req_contents = analysis_prompt_head @ substring0 text 30000 @ analysis_prompt_tail,
      req_responseMimeType = Some (lit ''application/json''),
      req_responseSchema = True,
      req_systemInstruction =
        Some (lit ''You are a senior Indian Legal expert. Be precise, conservative with risk, and helpful.'')\<rparr>"

definition analyzeDocument ::
  "jsstring option \<Rightarrow> ai_service \<Rightarrow> service \<Rightarrow> jsstring \<Rightarrow> (error + AnalysisResult) \<times> service" where
  "analyzeDocument apiKey ai v text =
     (if falsy apiKey then (Inl (Error (lit ''API Key is missing.'')), v)
      else
        let req = analysis_request text;
            v' = v\<lparr>submitted := submitted v @ [req]\<rparr>
        in case generateContent ai req of
             Inl e \<Rightarrow> (Inl e, v')
           | Inr jsonText \<Rightarrow>
               if falsy jsonText then (Inl (Error (lit ''No response from AI'')), v')
               else (json_parse ai (or_else jsonText []), v'))"

definition rewrite_request :: "jsstring \<Rightarrow> jsstring \<Rightarrow> gen_request" where
  "rewrite_request clauseText ctx =
     \<lparr>req_model = ANALYSIS_MODEL,
      req_contents = concat
        [nl, lit ''    Rewrite the following legal clause to be safer for the receiving party (client), '',
         nl, lit ''    fairer, and strictly compliant with Indian Law. '',
         nl, lit ''    Keep the language professional but clearer.'',
         nl, lit ''    '',
         nl, lit ''    Original Clause: '', dq, clauseText, dq,
         nl, lit ''    '',
         nl, lit ''    Context/Domain: '', ctx,
         nl, lit ''    '',
         nl, lit ''    Return ONLY the rewritten clause text.'',
         nl, lit ''  ''],
      req_responseMimeType = None,
      req_responseSchema = False,
      req_systemInstruction = None\<rparr>"

definition rewriteClause ::
  "jsstring option \<Rightarrow> ai_service \<Rightarrow> service \<Rightarrow> jsstring \<Rightarrow> jsstring \<Rightarrow> (error + jsstring) \<times> service" where
  "rewriteClause apiKey ai v clauseText ctx =
     (if falsy apiKey then (Inl (Error (lit ''API Key is missing.'')), v)
      else
        let req = rewrite_request clauseText ctx;
            v' = v\<lparr>submitted := submitted v @ [req]\<rparr>
        in case generateContent ai req of
             Inl e \<Rightarrow> (Inl e, v')
           | Inr t \<Rightarrow> (Inr (or_else t (lit ''Could not generate rewrite.'')), v'))"

definition chat_instruction :: "jsstring \<Rightarrow> jsstring" where
  "chat_instruction docContext = concat
     [lit ''You are LegalLens India. You are chatting with a user about a specific legal document they uploaded. '',
      nl, lit ''      Here is the document context: '', dq, dq, dq, substring0 docContext 20000, dq, dq, dq, lit ''.'',
      nl, lit ''      Answer questions based on Indian Law. If a query is outside legal scope, politely decline.'',
      nl, lit ''      Keep answers concise and helpful.'']"

text \<open>
  \<open>initChat\<close> returns nothing and throws nothing: its outcome is always a normal return
  (\<open>Inr ()\<close>), with the session replaced only when the key is present.
\<close>

definition initChat :: "jsstring option \<Rightarrow> service \<Rightarrow> jsstring \<Rightarrow> (error + unit) \<times> service" where
  "initChat apiKey v docContext =
     (if falsy apiKey then (Inr (), v)
      else (Inr (),
            v\<lparr>chatSession := Some \<lparr>chat_model = CHAT_MODEL,
                                    chat_systemInstruction = chat_instruction docContext,
                                    chat_history = []\<rparr>\<rparr>))"

definition sendMessageToChat ::
  "ai_service \<Rightarrow> service \<Rightarrow> jsstring \<Rightarrow> (error + jsstring) \<times> service" where
  "sendMessageToChat ai v message =
     (case chatSession v of
        None \<Rightarrow> (Inl (Error (lit ''Chat session not initialized'')), v)
      | Some c \<Rightarrow>
          (case chat_sendMessage ai c message of
             Inl e \<Rightarrow> (Inl e, v)
           | Inr t \<Rightarrow>
               (Inr (or_else t (lit ''I didn't understand that.'')),
                v\<lparr>chatSession := Some (c\<lparr>chat_history := chat_history c @ [(message, t)]\<rparr>)\<rparr>)))"

text \<open>The four AI-dependent operations as one interface, to speak about all of them.\<close>

datatype ai_call =
  Analyze jsstring
| Rewrite jsstring jsstring
| InitChat jsstring
| SendMessage jsstring

datatype ai_value = VAnalysis AnalysisResult | VText jsstring | VUnit

definition perform ::
  "jsstring option \<Rightarrow> ai_service \<Rightarrow> service \<Rightarrow> ai_call \<Rightarrow> (error + ai_value) \<times> service" where
  "perform apiKey ai v c =
     (case c of
        Analyze text \<Rightarrow> apfst (map_sum id VAnalysis) (analyzeDocument apiKey ai v text)
      | Rewrite clauseText ctx \<Rightarrow> apfst (map_sum id VText) (rewriteClause apiKey ai v clauseText ctx)
      | InitChat docContext \<Rightarrow> apfst (map_sum id (\<lambda>_. VUnit)) (initChat apiKey v docContext)
      | SendMessage message \<Rightarrow> apfst (map_sum id VText) (sendMessageToChat ai v message))"

text \<open>The module state after a sequence of calls, whatever their outcomes.\<close>

fun run_calls :: "jsstring option \<Rightarrow> ai_service \<Rightarrow> service \<Rightarrow> ai_call list \<Rightarrow> service" where
  "run_calls apiKey ai v [] = v"
| "run_calls apiKey ai v (c # cs) = run_calls apiKey ai (snd (perform apiKey ai v c)) cs"

text \<open>A service that never answers with text, for concrete runs.\<close>

definition silent_ai :: ai_service where
  "silent_ai = \<lparr>generateContent = (\<lambda>_. Inr None),
                chat_sendMessage = (\<lambda>_ _. Inr None),
                json_parse = (\<lambda>_. Inl (Error (lit ''Unexpected end of JSON input'')))\<rparr>"

section \<open>The text extractor (services/fileProcessor.ts)\<close>

record js_file =
  file_name :: jsstring
  file_type :: jsstring
  file_bytes :: "8 word list"

text \<open>
  A parsed PDF is its pages in order; \<open>getPage\<close> or \<open>getTextContent\<close> may throw on a
  page, and a text item may lack \<open>str\<close>.
\<close>

type_synonym pdf_page = "error + jsstring option list"

text \<open>
  The browser's \<open>FileReader\<close>, pdf.js and Tesseract are outside the program: given the
  file, each produces its result or fails.
\<close>

record extractors =
  readAsText :: "js_file \<Rightarrow> error + jsstring"
  getDocument :: "8 word list \<Rightarrow> error + pdf_page list"
  recognize :: "js_file \<Rightarrow> error + jsstring"

text \<open>The page loop \<open>for (let i = 1; i <= pdf.numPages; i++)\<close>, from page \<open>i\<close> on.\<close>

fun pdf_pages_text :: "nat \<Rightarrow> pdf_page list \<Rightarrow> jsstring \<Rightarrow> error + jsstring" where
  "pdf_pages_text i [] fullText = Inr fullText"
| "pdf_pages_text i (p # ps) fullText =
     (case p of
        Inl e \<Rightarrow> Inl e
      | Inr items \<Rightarrow>
          pdf_pages_text (Suc i) ps
            (fullText @ lit ''--- Page '' @ dec_nat i @ lit '' ---'' @ nl @ join_sp items @ nl @ nl))"

text \<open>The body of the inner \<open>try\<close> of the PDF branch: what it resolves with, or what it throws.\<close>

definition pdf_try :: "extractors \<Rightarrow> js_file \<Rightarrow> error + jsstring" where
  "pdf_try libs f =
     (case getDocument libs (file_bytes f) of
        Inl e \<Rightarrow> Inl e
      | Inr pages \<Rightarrow>
          (case pdf_pages_text 1 pages [] of
             Inl e \<Rightarrow> Inl e
           | Inr fullText \<Rightarrow>
               if length (strip_ws fullText) < 50 then Inl (Error (lit ''Scanned PDF detected''))
               else Inr fullText))"

definition PDF_ERROR :: error where
  "PDF_ERROR = Error (lit ''Could not extract text from PDF. It might be a scanned image or password protected.'')"

definition extractTextFromFile :: "extractors \<Rightarrow> js_file \<Rightarrow> error + jsstring" where
  "extractTextFromFile libs f =
     (if file_type f = lit ''text/plain'' \<or> endsWith (file_name f) (lit ''.md'')
         \<or> endsWith (file_name f) (lit ''.txt'')
      then (case readAsText libs f of
              Inl e \<Rightarrow> Inl (Error (lit ''Failed to read text file''))
            | Inr t \<Rightarrow> Inr t)
      else if file_type f = lit ''application/pdf''
      then (case pdf_try libs f of
              Inl e \<Rightarrow> Inl PDF_ERROR
            | Inr fullText \<Rightarrow> Inr fullText)
      else if startsWith (file_type f) (lit ''image/'')
      then (case recognize libs f of
              Inl e \<Rightarrow> Inl (Error (lit ''OCR processing failed.''))
            | Inr t \<Rightarrow> Inr t)
      else Inl (Error (lit ''Unsupported file type. Please use .txt, .pdf, .jpg, or .png.'')))"

section \<open>The application shell (App.tsx)\<close>

datatype Tab = TabChat | TabAnalysis

record app_state =
  documentText :: "jsstring option"
  docName :: jsstring
  analysis :: "AnalysisResult option"
  isLoading :: bool
  activeTab :: Tab
  clause_rewrites :: "int \<rightharpoonup> jsstring"

definition init_app :: app_state where
  "init_app = \<lparr>documentText = None, docName = [], analysis = None, isLoading = False,
               activeTab = TabChat, clause_rewrites = Map.empty\<rparr>"

text \<open>
  Everything the shell's handlers touch: the component state, the analysis client's
  module state, and the notifications shown with \<open>alert\<close> (oldest first).
\<close>

record world =
  app :: app_state
  svc :: service
  alerts :: "jsstring list"

definition init_world :: world where
  "init_world = \<lparr>app = init_app, svc = init_service, alerts = []\<rparr>"

definition handleDocumentLoaded ::
  "jsstring option \<Rightarrow> ai_service \<Rightarrow> world \<Rightarrow> jsstring \<Rightarrow> jsstring \<Rightarrow> world" where
  "handleDocumentLoaded apiKey ai w text fileName =
     (let s1 = (app w)\<lparr>documentText := Some text, docName := fileName, isLoading := True,
                        clause_rewrites := Map.empty\<rparr>
      in case analyzeDocument apiKey ai (svc w) text of
           (Inr result, v) \<Rightarrow>
             w\<lparr>app := s1\<lparr>analysis := Some result, isLoading := False\<rparr>,
               svc := snd (initChat apiKey v text)\<rparr>
         | (Inl e, v) \<Rightarrow>
             w\<lparr>app := s1\<lparr>documentText := None, isLoading := False\<rparr>,
               svc := v,
               alerts := alerts w @ [lit ''Analysis failed. Please check your API Key and try again.'']\<rparr>)"

definition handleRewriteUpdate :: "app_state \<Rightarrow> int \<Rightarrow> jsstring \<Rightarrow> app_state" where
  "handleRewriteUpdate s k t = s\<lparr>clause_rewrites := (clause_rewrites s)(k \<mapsto> t)\<rparr>"

definition handleReset :: "app_state \<Rightarrow> app_state" where
  "handleReset s = s\<lparr>documentText := None, analysis := None, clause_rewrites := Map.empty,
                      activeTab := TabChat\<rparr>"

subsection \<open>PDF export\<close>

text \<open>
  The calls made on the jsPDF document, in order. \<open>doc.text\<close> is called with one string
  (\<open>TextStr\<close>: the title, the headings and the labels), with the array of lines that
  \<open>splitTextToSize\<close> returned (\<open>TextLines\<close>), or with an alignment option (\<open>TextAligned\<close>:
  the footer).
\<close>

datatype pdf_op =
  SetFillColor int int int
| SetDrawColor int int int
| SetTextColor int int int
| SetFontSize real
| SetFont jsstring jsstring
| Rect real real real real jsstring
| RoundedRect real real real real real real jsstring
| TextStr jsstring real real
| TextLines "jsstring list" real real
| TextAligned jsstring real real jsstring
| AddPage
| SetPage nat
| Save jsstring

text \<open>The document: the calls so far, and the state that later calls read.\<close>

record pdf_doc =
  doc_ops :: "pdf_op list"
  doc_font :: "jsstring \<times> jsstring"
  doc_fontSize :: real
  doc_pages :: nat

text \<open>
  jsPDF itself is outside the program: the page width it reports, and how it breaks a
  text into lines for the current font, font size and a maximal width.
\<close>

record jspdf =
  pageWidth :: real
  splitTextToSize :: "jsstring \<times> jsstring \<Rightarrow> real \<Rightarrow> jsstring \<Rightarrow> real \<Rightarrow> jsstring list"

definition new_jsPDF :: pdf_doc where
  "new_jsPDF = \<lparr>doc_ops = [], doc_font = (lit ''helvetica'', lit ''normal''), doc_fontSize = 16,
                 doc_pages = 1\<rparr>"

fun apply_op :: "pdf_op \<Rightarrow> pdf_doc \<Rightarrow> pdf_doc" where
  "apply_op (SetFont n st) d = d\<lparr>doc_ops := doc_ops d @ [SetFont n st], doc_font := (n, st)\<rparr>"
| "apply_op (SetFontSize k) d = d\<lparr>doc_ops := doc_ops d @ [SetFontSize k], doc_fontSize := k\<rparr>"
| "apply_op AddPage d = d\<lparr>doc_ops := doc_ops d @ [AddPage], doc_pages := Suc (doc_pages d)\<rparr>"
| "apply_op c d = d\<lparr>doc_ops := doc_ops d @ [c]\<rparr>"

declare apply_op.simps [simp del]

definition run_ops :: "pdf_op list \<Rightarrow> pdf_doc \<Rightarrow> pdf_doc" where
  "run_ops cs d = fold apply_op cs d"

definition split_text :: "jspdf \<Rightarrow> pdf_doc \<Rightarrow> jsstring \<Rightarrow> real \<Rightarrow> jsstring list" where
  "split_text lib d t w = splitTextToSize lib (doc_font d) (doc_fontSize d) t w"

definition margin :: real where
  "margin = 15"

definition maxTextWidth :: "jspdf \<Rightarrow> real" where
  "maxTextWidth lib = pageWidth lib - (margin * 2)"

definition helvetica :: jsstring where
  "helvetica = lit ''helvetica''"

text \<open>Header, meta information and summary; returns the document and \<open>y\<close>.\<close>

definition export_top :: "jspdf \<Rightarrow> jsstring \<Rightarrow> AnalysisResult \<Rightarrow> pdf_doc \<Rightarrow> pdf_doc \<times> real" where
  "export_top lib name a d =
     (let d1 = run_ops
            [SetFillColor 16 42 67,
             Rect 0 0 (pageWidth lib) 25 (lit ''F''),
             SetTextColor 255 255 255,
             SetFontSize 18,
             TextStr (lit ''LegalLens India Analysis'') margin 16,
             SetTextColor 0 0 0,
             SetFontSize 12,
             SetFont helvetica (lit ''bold''),
             TextStr (lit ''Document: '' @ name) margin 35,
             SetFont helvetica (lit ''normal''),
             TextStr (lit ''Domain: '' @ domain_str (domain a) @ lit ''   |   Risk Score: ''
                      @ num_toString (overallRiskScore a) @ lit ''/100'') margin (35 + 7),
             SetFillColor 240 244 248,
             SetDrawColor 200 200 200,
             RoundedRect margin (35 + 7 + 12) (maxTextWidth lib) 30 2 2 (lit ''FD''),
             SetFontSize 10,
             SetTextColor 50 50 50] d;
          summaryLines = split_text lib d1 (summary a) (maxTextWidth lib - 10)
      in (apply_op (TextLines summaryLines (margin + 5) (35 + 7 + 12 + 10)) d1, 35 + 7 + 12 + (30 + 10)))"

text \<open>\<open>analysis.nextSteps.forEach\<close>\<close>

fun steps_loop :: "jspdf \<Rightarrow> jsstring list \<Rightarrow> pdf_doc \<Rightarrow> real \<Rightarrow> pdf_doc \<times> real" where
  "steps_loop lib [] d y = (d, y)"
| "steps_loop lib (step # rest) d y =
     (let stepLines = split_text lib d (bullet @ lit '' '' @ step) (maxTextWidth lib);
          h = real (length stepLines) * 5
      in if y + h > 280
         then steps_loop lib rest (apply_op (TextLines stepLines margin 20) (apply_op AddPage d)) (20 + h + 2)
         else steps_loop lib rest (apply_op (TextLines stepLines margin y) d) (y + h + 2))"

definition next_steps_section :: "jspdf \<Rightarrow> AnalysisResult \<Rightarrow> pdf_doc \<Rightarrow> real \<Rightarrow> pdf_doc \<times> real" where
  "next_steps_section lib a d y =
     (if length (nextSteps a) > 0
      then
        let d1 = run_ops
              [SetFillColor 239 246 255,
               SetDrawColor 191 219 254,
               SetFontSize 12,
               SetFont helvetica (lit ''bold''),
               SetTextColor 30 58 138,
               TextStr (lit ''Recommended Next Steps'') margin y,
               SetFontSize 10,
               SetFont helvetica (lit ''normal''),
               SetTextColor 0 0 0] d
        in apsnd (\<lambda>y'. y' + 5) (steps_loop lib (nextSteps a) d1 (y + 6))
      else (d, y))"

text \<open>\<open>analysis.redFlags.forEach\<close>\<close>

fun flags_loop :: "jspdf \<Rightarrow> jsstring list \<Rightarrow> pdf_doc \<Rightarrow> real \<Rightarrow> pdf_doc \<times> real" where
  "flags_loop lib [] d y = (d, y)"
| "flags_loop lib (flag # rest) d y =
     (let flagLines = split_text lib d (bullet @ lit '' '' @ flag) (maxTextWidth lib)
      in flags_loop lib rest (apply_op (TextLines flagLines margin y) d)
           (y + (real (length flagLines) * 5 + 2)))"

definition red_flags_section :: "jspdf \<Rightarrow> AnalysisResult \<Rightarrow> pdf_doc \<Rightarrow> real \<Rightarrow> pdf_doc \<times> real" where
  "red_flags_section lib a d y =
     (if length (redFlags a) > 0
      then
        let d0 = (if y > 250 then apply_op AddPage d else d);
            y0 = (if y > 250 then 20 else y);
            d1 = run_ops
              [SetTextColor 200 0 0,
               SetFontSize 12,
               SetFont helvetica (lit ''bold''),
               TextStr (lit ''Critical Red Flags'') margin y0,
               SetTextColor 50 0 0,
               SetFontSize 10,
               SetFont helvetica (lit ''normal'')] d0
        in apsnd (\<lambda>y'. y' + 5) (flags_loop lib (redFlags a) d1 (y0 + 6))
      else (d, y))"

text \<open>One round of \<open>analysis.clauses.forEach\<close>.\<close>

definition clause_block ::
  "jspdf \<Rightarrow> (int \<rightharpoonup> jsstring) \<Rightarrow> Clause \<Rightarrow> pdf_doc \<Rightarrow> real \<Rightarrow> pdf_doc \<times> real" where
  "clause_block lib rw c d y =
     (let d0 = (if y > 220 then apply_op AddPage d else d);
          y0 = (if y > 220 then 20 else y);
          d1 = run_ops
            [SetFontSize 11,
             SetFont helvetica (lit ''bold''),
             SetTextColor 0 0 0,
             TextStr (lit ''Clause: '' @ title c @ lit '' ['' @ riskLevel_str (riskLevel c) @ lit '']'') margin y0,
             SetFontSize 9,
             SetFont helvetica (lit ''italic''),
             SetTextColor 80 80 80] d0;
          y1 = y0 + 5;
          textLines = split_text lib d1 (dq @ clause_text c @ dq) (maxTextWidth lib);
          d2 = run_ops
            [TextLines textLines margin y1,
             SetFont helvetica (lit ''normal''),
             SetTextColor 0 0 0] d1;
          y2 = y1 + (real (length textLines) * 4 + 3);
          explanationLines = split_text lib d2 (lit ''Analysis: '' @ explanation c) (maxTextWidth lib);
          d3 = run_ops
            [TextLines explanationLines margin y2,
             SetTextColor 180 83 9] d2;
          y3 = y2 + (real (length explanationLines) * 4 + 2);
          lawLines = split_text lib d3 (lit ''Indian Law: '' @ indianLawReference c) (maxTextWidth lib);
          d4 = apply_op (TextLines lawLines margin y3) d3;
          y4 = y3 + (real (length lawLines) * 4 + 4)
      in if falsy (rw (clause_id c)) then (d4, y4 + 4)
         else
           let d5 = run_ops
                 [SetTextColor 16 185 129,
                  SetFont helvetica (lit ''bold''),
                  TextStr (lit ''Safe Rewrite Suggested:'') margin y4,
                  SetFont helvetica (lit ''italic''),
                  SetTextColor 6 95 70] d4;
               rewriteLines = split_text lib d5 (dq @ or_else (rw (clause_id c)) [] @ dq) (maxTextWidth lib)
           in (apply_op (TextLines rewriteLines margin (y4 + 5)) d5,
               y4 + 5 + (real (length rewriteLines) * 4 + 4) + 4))"

fun clauses_loop ::
  "jspdf \<Rightarrow> (int \<rightharpoonup> jsstring) \<Rightarrow> Clause list \<Rightarrow> pdf_doc \<Rightarrow> real \<Rightarrow> pdf_doc \<times> real" where
  "clauses_loop lib rw [] d y = (d, y)"
| "clauses_loop lib rw (c # cs) d y =
     (case clause_block lib rw c d y of (d', y') \<Rightarrow> clauses_loop lib rw cs d' y')"

definition clauses_section ::
  "jspdf \<Rightarrow> (int \<rightharpoonup> jsstring) \<Rightarrow> AnalysisResult \<Rightarrow> pdf_doc \<Rightarrow> real \<Rightarrow> pdf_doc \<times> real" where
  "clauses_section lib rw a d y =
     clauses_loop lib rw (clauses a)
       (run_ops
          [SetTextColor 16 42 67,
           SetFontSize 14,
           SetFont helvetica (lit ''bold''),
           TextStr (lit ''Detailed Clause Analysis'') margin y] d)
       (y + 10)"

text \<open>The footer loop \<open>for (let i = 1; i <= pageCount; i++)\<close>.\<close>

definition footer_ops :: "jspdf \<Rightarrow> nat \<Rightarrow> nat \<Rightarrow> pdf_op list" where
  "footer_ops lib pageCount i =
     [SetPage i,
      SetFontSize 8,
      SetTextColor 150 150 150,
      TextAligned (lit ''Generated by LegalLens India - Page '' @ dec_nat i @ lit '' of '' @ dec_nat pageCount)
        (pageWidth lib / 2) 290 (lit ''center'')]"

definition export_footer :: "jspdf \<Rightarrow> pdf_doc \<Rightarrow> pdf_doc" where
  "export_footer lib d =
     run_ops (concat (map (footer_ops lib (doc_pages d)) [1 ..< Suc (doc_pages d)])) d"

definition export_doc :: "jspdf \<Rightarrow> jsstring \<Rightarrow> (int \<rightharpoonup> jsstring) \<Rightarrow> AnalysisResult \<Rightarrow> pdf_doc" where
  "export_doc lib name rw a =
     (case export_top lib name a new_jsPDF of (d1, y1) \<Rightarrow>
      case next_steps_section lib a d1 y1 of (d2, y2) \<Rightarrow>
      case red_flags_section lib a d2 y2 of (d3, y3) \<Rightarrow>
      case clauses_section lib rw a d3 y3 of (d4, y4) \<Rightarrow>
        apply_op (Save (lit ''LegalLens_Report.pdf'')) (export_footer lib d4))"

text \<open>\<open>handleExportPDF\<close>: nothing is produced without an analysis.\<close>

definition handleExportPDF :: "jspdf \<Rightarrow> app_state \<Rightarrow> pdf_doc option" where
  "handleExportPDF lib s =
     (case analysis s of
        None \<Rightarrow> None
      | Some a \<Rightarrow> Some (export_doc lib (docName s) (clause_rewrites s) a))"

text \<open>Whether the document holds a one-string text call with exactly this string.\<close>

fun is_heading :: "jsstring \<Rightarrow> pdf_op \<Rightarrow> bool" where
  "is_heading h (TextStr t x y) = (t = h)"
| "is_heading h c = False"

definition renders_heading :: "jsstring \<Rightarrow> pdf_doc \<Rightarrow> bool" where
  "renders_heading h d = list_ex (is_heading h) (doc_ops d)"

text \<open>Whether a call is a text call with exactly these lines.\<close>

fun is_lines :: "jsstring list \<Rightarrow> pdf_op \<Rightarrow> bool" where
  "is_lines ls (TextLines t x y) = (t = ls)"
| "is_lines ls c = False"

text \<open>Whether the document holds a text call with exactly these lines.\<close>

definition has_lines :: "jsstring list \<Rightarrow> pdf_doc \<Rightarrow> bool" where
  "has_lines ls d = list_ex (is_lines ls) (doc_ops d)"

text \<open>
  The lines of one bulleted item of the next-steps or red-flags section: both loops run
  with the font helvetica, normal, at size 10.
\<close>

definition bullet_lines :: "jspdf \<Rightarrow> jsstring \<Rightarrow> jsstring list" where
  "bullet_lines lib t =
     splitTextToSize lib (helvetica, lit ''normal'') 10 (bullet @ lit '' '' @ t) (maxTextWidth lib)"

text \<open>A line breaker for concrete runs: every text is one line.\<close>

definition plain_jspdf :: jspdf where
  "plain_jspdf = \<lparr>pageWidth = 210, splitTextToSize = (\<lambda>f k t w. [t])\<rparr>"

section \<open>The upload panel (components/FileUpload.tsx)\<close>

datatype upload_mode = ModeUpload | ModePaste

record upload_state =
  dragActive :: bool
  manualText :: jsstring
  upload_mode :: upload_mode
  isProcessing :: bool

definition init_upload :: upload_state where
  "init_upload = \<lparr>dragActive = False, manualText = [], upload_mode = ModeUpload, isProcessing = False\<rparr>"

text \<open>
  \<open>processFile\<close>, with the \<open>onDataLoaded\<close> property as a parameter acting on the rest of
  the application \<open>w\<close>, and \<open>alert\<close> likewise.
\<close>

definition processFile ::
  "extractors \<Rightarrow> ('w \<Rightarrow> jsstring \<Rightarrow> jsstring \<Rightarrow> 'w) \<Rightarrow> ('w \<Rightarrow> jsstring \<Rightarrow> 'w) \<Rightarrow>
   upload_state \<Rightarrow> 'w \<Rightarrow> js_file \<Rightarrow> upload_state \<times> 'w" where
  "processFile libs onDataLoaded alert u w f =
     (case extractTextFromFile libs f of
        Inr text \<Rightarrow>
          if includes_str text (lit ''Unable to extract'')
          then (u\<lparr>upload_mode := ModePaste,
                  manualText := lit ''Could not auto-parse PDF in this demo. Please paste content here.'',
                  isProcessing := False\<rparr>, w)
          else (u\<lparr>isProcessing := False\<rparr>, onDataLoaded w text (file_name f))
      | Inl (Error m) \<Rightarrow>
          (u\<lparr>isProcessing := False\<rparr>, alert w (or_else (Some m) (lit ''Error reading file''))))"

definition handleManualSubmit ::
  "('w \<Rightarrow> jsstring \<Rightarrow> jsstring \<Rightarrow> 'w) \<Rightarrow> ('w \<Rightarrow> jsstring \<Rightarrow> 'w) \<Rightarrow> upload_state \<Rightarrow> 'w \<Rightarrow> upload_state \<times> 'w" where
  "handleManualSubmit onDataLoaded alert u w =
     (if length (trim (manualText u)) < 50
      then (u, alert w (lit ''Please enter more text for a valid analysis.''))
      else (u, onDataLoaded w (manualText u) (lit ''Manual Paste.txt'')))"

definition show_alert :: "world \<Rightarrow> jsstring \<Rightarrow> world" where
  "show_alert w m = w\<lparr>alerts := alerts w @ [m]\<rparr>"

text \<open>The upload panel as the shell mounts it: \<open>onDataLoaded={handleDocumentLoaded}\<close>.\<close>

definition upload_file ::
  "extractors \<Rightarrow> jsstring option \<Rightarrow> ai_service \<Rightarrow> upload_state \<Rightarrow> world \<Rightarrow> js_file \<Rightarrow> upload_state \<times> world" where
  "upload_file libs apiKey ai u w f = processFile libs (handleDocumentLoaded apiKey ai) show_alert u w f"

section \<open>The clause panel (components/ClausePanel.tsx)\<close>

text \<open>\<open>toggleClause\<close> on the state \<open>expandedClauseId\<close> (\<open>null\<close> is \<open>None\<close>).\<close>

definition toggleClause :: "int option \<Rightarrow> int \<Rightarrow> int option" where
  "toggleClause expandedClauseId k = (if expandedClauseId = Some k then None else Some k)"

text \<open>The render condition \<open>expandedClauseId === clause.id\<close>.\<close>

definition is_expanded :: "int option \<Rightarrow> int \<Rightarrow> bool" where
  "is_expanded expandedClauseId k = (expandedClauseId = Some k)"

section \<open>The chat panel (components/ChatWindow.tsx)\<close>

record chat_window =
  messages :: "ChatMessage list"
  input :: jsstring
  isTyping :: bool

text \<open>The clock readings of one \<open>handleSend\<close>: \<open>Date.now()\<close> and \<open>new Date()\<close> when the
  user's message is made, and again when the reply (or the failure) arrives.\<close>

record clock =
  now_user :: int
  date_user :: int
  now_reply :: int
  date_reply :: int

definition greeting :: "int \<Rightarrow> ChatMessage" where
  "greeting t =
     \<lparr>msg_id = lit ''1'', role = RoleModel,
      msg_text = lit ''Hello! I have analyzed your document. I can explain specific clauses, risks, or Indian legal implications. What would you like to know?'',
      timestamp = t\<rparr>"

definition init_chat_window :: "int \<Rightarrow> chat_window" where
  "init_chat_window t = \<lparr>messages = [greeting t], input = [], isTyping = False\<rparr>"

definition handleSend ::
  "ai_service \<Rightarrow> clock \<Rightarrow> chat_window \<Rightarrow> service \<Rightarrow> chat_window \<times> service" where
  "handleSend ai clk cw v =
     (if trim (input cw) = [] then (cw, v)
      else
        let userMsg = \<lparr>msg_id = num_toString (now_user clk), role = RoleUser,
                       msg_text = input cw, timestamp = date_user clk\<rparr>;
            cw1 = cw\<lparr>messages := messages cw @ [userMsg], input := [], isTyping := True\<rparr>
        in case sendMessageToChat ai v (msg_text userMsg) of
             (Inr responseText, v') \<Rightarrow>
               (cw1\<lparr>messages := messages cw1 @
                      [\<lparr>msg_id = num_toString (now_reply clk + 1), role = RoleModel,
                        msg_text = responseText, timestamp = date_reply clk\<rparr>],
                    isTyping := False\<rparr>, v')
           | (Inl e, v') \<Rightarrow>
               (cw1\<lparr>messages := messages cw1 @
                      [\<lparr>msg_id = lit ''err'', role = RoleModel,
                        msg_text = lit ''Sorry, I encountered an error connecting to the AI.'',
                        timestamp = date_reply clk\<rparr>],
                    isTyping := False\<rparr>, v'))"

text \<open>The user types \<open>t\<close> into the input box (\<open>onChange\<close>).\<close>

definition type_input :: "jsstring \<Rightarrow> chat_window \<Rightarrow> chat_window" where
  "type_input t cw = cw\<lparr>input := t\<rparr>"

section \<open>Concrete inputs\<close>

text \<open>Files, libraries, callbacks, clocks and an analysis for the concrete runs below.\<close>

definition mk_file :: "jsstring \<Rightarrow> jsstring \<Rightarrow> js_file" where
  "mk_file name ty = \<lparr>file_name = name, file_type = ty, file_bytes = []\<rparr>"

definition text_libs :: "jsstring \<Rightarrow> extractors" where
  "text_libs t = \<lparr>readAsText = (\<lambda>_. Inr t),
                  getDocument = (\<lambda>_. Inl (Error (lit ''Invalid PDF structure.''))),
                  recognize = (\<lambda>_. Inl (Error (lit ''Error attempting to read image.'')))\<rparr>"

definition pdf_libs :: "pdf_page list \<Rightarrow> extractors" where
  "pdf_libs pages = \<lparr>readAsText = (\<lambda>_. Inl (Error (lit ''NotReadableError''))),
                     getDocument = (\<lambda>_. Inr pages),
                     recognize = (\<lambda>_. Inl (Error (lit ''Error attempting to read image.'')))\<rparr>"

text \<open>An \<open>onDataLoaded\<close> that records each call it receives, and an \<open>alert\<close> that records nothing.\<close>

definition log_loaded ::
  "(jsstring \<times> jsstring) list \<Rightarrow> jsstring \<Rightarrow> jsstring \<Rightarrow> (jsstring \<times> jsstring) list" where
  "log_loaded calls t n = calls @ [(t, n)]"

definition no_alert :: "(jsstring \<times> jsstring) list \<Rightarrow> jsstring \<Rightarrow> (jsstring \<times> jsstring) list" where
  "no_alert calls m = calls"

definition clock_at :: "int \<Rightarrow> clock" where
  "clock_at t = \<lparr>now_user = t, date_user = t, now_reply = t + 800, date_reply = t + 800\<rparr>"

definition sample_analysis :: AnalysisResult where
  "sample_analysis =
     \<lparr>summary = lit ''An eleven month residential lease.'',
      domain = Property,
      clauses = [\<lparr>clause_id = 7, title = lit ''Termination'',
                  clause_text = lit ''The landlord may terminate at will.'',
                  riskLevel = HIGH, explanation = lit ''One-sided termination.'',
                  indianLawReference = lit ''Section 23, Indian Contract Act, 1872'',
                  suggestion = None\<rparr>],
      overallRiskScore = 62,
      redFlags = [],
      nextSteps = [lit ''Register the agreement.'']\<rparr>"

text \<open>The two messages one failed turn appends, as \<open>handleSend\<close> builds them.\<close>

definition user_message :: "clock \<Rightarrow> jsstring \<Rightarrow> ChatMessage" where
  "user_message clk t = \<lparr>msg_id = num_toString (now_user clk), role = RoleUser, msg_text = t,
                         timestamp = date_user clk\<rparr>"

definition apology :: "int \<Rightarrow> ChatMessage" where
  "apology t = \<lparr>msg_id = lit ''err'', role = RoleModel,
                msg_text = lit ''Sorry, I encountered an error connecting to the AI.'',
                timestamp = t\<rparr>"

section \<open>Properties of the string operations\<close>

text \<open>\<open>includes_str\<close> decides whether the second string occurs inside the first.\<close>

lemma startsWith_iff: "startsWith s p \<longleftrightarrow> (\<exists>ss. s = p @ ss)"
proof
  assume "startsWith s p"
  then have "s = p @ drop (length p) s"
    by (metis append_take_drop_id startsWith_def)
  then show "\<exists>ss. s = p @ ss" ..
next
  assume "\<exists>ss. s = p @ ss"
  then show "startsWith s p" by (auto simp add: startsWith_def)
qed

lemma includes_str_iff: "includes_str s sub \<longleftrightarrow> (\<exists>ps ss. s = ps @ sub @ ss)"
proof (induction s)
  case Nil
  then show ?case by simp
next
  case (Cons c cs)
  note IH = Cons.IH
  show ?case
  proof
    assume "includes_str (c # cs) sub"
    then consider "startsWith (c # cs) sub" | "includes_str cs sub" by auto
    then show "\<exists>ps ss. c # cs = ps @ sub @ ss"
    proof cases
      case 1
      then obtain ss where "c # cs = sub @ ss" by (auto simp add: startsWith_iff)
      then have "c # cs = [] @ sub @ ss" by simp
      then show ?thesis by blast
    next
      case 2
      with IH obtain ps ss where "cs = ps @ sub @ ss" by auto
      then have "c # cs = (c # ps) @ sub @ ss" by simp
      then show ?thesis by blast
    qed
  next
    assume "\<exists>ps ss. c # cs = ps @ sub @ ss"
    then obtain ps ss where e: "c # cs = ps @ sub @ ss" by auto
    show "includes_str (c # cs) sub"
    proof (cases ps)
      case Nil
      with e have "startsWith (c # cs) sub" by (auto simp add: startsWith_iff)
      then show ?thesis by simp
    next
      case (Cons p ps')
      with e have "cs = ps' @ sub @ ss" by simp
      with IH have "includes_str cs sub" by blast
      then show ?thesis by simp
    qed
  qed
qed

section \<open>Properties of the analysis client\<close>

lemma run_calls_no_key:
  assumes "falsy apiKey" and "chatSession v = None"
  shows "run_calls apiKey ai v cs = v"
  using assms
proof (induction cs)
  case Nil
  then show ?case by simp
next
  case (Cons c cs)
  have "snd (perform apiKey ai v c) = v"
    using Cons.prems
    by (cases c)
      (simp_all add: perform_def analyzeDocument_def rewriteClause_def initChat_def
        sendMessageToChat_def)
  with Cons show ?case by simp
qed

text \<open>
  C1, as amended. When the API key is absent (undefined or empty), in every module state
  reached from the initial one by any sequence of calls: \<open>analyzeDocument\<close> and
  \<open>rewriteClause\<close> fail with "API Key is missing.", \<open>sendMessageToChat\<close> fails with
  "Chat session not initialized" (no session can have been created), and \<open>initChat\<close>
  does not fail: it returns normally and leaves the state as it was.
\<close>

theorem missing_key_outcomes:
  assumes "falsy apiKey" and "v = run_calls apiKey ai init_service cs"
  shows "perform apiKey ai v (Analyze t) = (Inl (Error (lit ''API Key is missing.'')), v)
       \<and> perform apiKey ai v (Rewrite c ctx) = (Inl (Error (lit ''API Key is missing.'')), v)
       \<and> perform apiKey ai v (SendMessage m) = (Inl (Error (lit ''Chat session not initialized'')), v)
       \<and> perform apiKey ai v (InitChat d) = (Inr VUnit, v)"
proof -
  have v: "v = init_service"
    using assms run_calls_no_key [of apiKey init_service ai cs] by (simp add: init_service_def)
  show ?thesis
    using assms(1) unfolding v
    by (simp add: perform_def analyzeDocument_def rewriteClause_def initChat_def
        sendMessageToChat_def init_service_def)
qed

theorem missing_key_outcomes_witness:
  "falsy None
   \<and> perform None silent_ai init_service (Analyze (lit ''Lease''))
       = (Inl (Error (lit ''API Key is missing.'')), init_service)
   \<and> perform None silent_ai init_service (Rewrite (lit ''Clause'') (lit ''Property''))
       = (Inl (Error (lit ''API Key is missing.'')), init_service)
   \<and> perform None silent_ai init_service (SendMessage (lit ''Hi''))
       = (Inl (Error (lit ''Chat session not initialized'')), init_service)
   \<and> perform None silent_ai init_service (InitChat (lit ''Lease'')) = (Inr VUnit, init_service)"
  using missing_key_outcomes [of None init_service silent_ai "[]" "lit ''Lease''" "lit ''Clause''"
      "lit ''Property''" "lit ''Hi''" "lit ''Lease''"]
  by (simp add: falsy_def)

text \<open>
  C1 as stated fails for chat initialization: without a key, \<open>initChat\<close> on the document
  "Lease" ends in no error.
\<close>

theorem initChat_without_key_counterexample:
  "\<not> (\<exists>e. fst (perform None silent_ai init_service (InitChat (lit ''Lease''))) = Inl e)"
  by (simp add: perform_def initChat_def falsy_def)

text \<open>
  C8. \<open>analyzeDocument\<close> submits exactly one request when the key is present, and none
  when it is absent; the document part of the request's prompt, between the fixed head and
  the fixed tail, is the whole text when it has at most 30000 characters and its first
  30000 characters otherwise: never more than 30000.
\<close>

theorem analyze_submits_first_30000:
  "submitted (snd (analyzeDocument apiKey ai v text))
     = (if falsy apiKey then submitted v else submitted v @ [analysis_request text])
   \<and> req_contents (analysis_request text)
     = analysis_prompt_head @ (if length text \<le> 30000 then text else take 30000 text)
       @ analysis_prompt_tail
   \<and> length (if length text \<le> 30000 then text else take 30000 text) \<le> 30000"
  by (auto simp add: analyzeDocument_def analysis_request_def substring0_def Let_def
      split: sum.splits)

theorem analyze_submits_first_30000_witness:
  "\<not> falsy (Some (lit ''k''))
   \<and> submitted (snd (analyzeDocument (Some (lit ''k'')) silent_ai init_service (lit ''Lease'')))
     = [analysis_request (lit ''Lease'')]
   \<and> req_contents (analysis_request (lit ''Lease''))
     = analysis_prompt_head @ lit ''Lease'' @ analysis_prompt_tail"
  using analyze_submits_first_30000 [of "Some (lit ''k'')" silent_ai init_service "lit ''Lease''"]
  by (simp add: falsy_def lit_def init_service_def)

section \<open>Properties of the text extractor\<close>



text \<open>
  The concatenated text holds the page markers \<open>--- Page i ---\<close>, and they count towards
  the 50 characters: five pages without any text item resolve, with the markers alone.
\<close>

lemma five_blank_pages_resolve:
  "\<exists>t. extractTextFromFile (pdf_libs [Inr [], Inr [], Inr [], Inr [], Inr []])
         (mk_file (lit ''scan.pdf'') (lit ''application/pdf'')) = Inr t
       \<and> strip_ws t = lit ''---Page1------Page2------Page3------Page4------Page5---''"
  by (simp add: extractTextFromFile_def pdf_try_def mk_file_def pdf_libs_def endsWith_def lit_def
      nl_def strip_ws_def is_space_def dec_nat.simps or_else_def)

section \<open>Properties of the application shell\<close>

text \<open>
  C4. In every application state, so in every one with a loaded document, the reset
  action leaves no document text, no analysis result and no rewrite, and the active tab
  is the chat tab.
\<close>

theorem handleReset_clears:
  "documentText (handleReset s) = None
   \<and> analysis (handleReset s) = None
   \<and> clause_rewrites (handleReset s) = Map.empty
   \<and> activeTab (handleReset s) = TabChat"
  by (simp add: handleReset_def)

text \<open>
  C5. Recording the rewrite \<open>t\<close> for clause id \<open>k\<close> makes the mapping return exactly
  \<open>t\<close> at \<open>k\<close>, and at every other id the mapping returns what it returned before.
\<close>

theorem handleRewriteUpdate_frame:
  "clause_rewrites (handleRewriteUpdate s k t) k = Some t
   \<and> (\<forall>k'. k' \<noteq> k \<longrightarrow> clause_rewrites (handleRewriteUpdate s k t) k' = clause_rewrites s k')"
  by (simp add: handleRewriteUpdate_def)

theorem handleRewriteUpdate_frame_witness:
  "clause_rewrites (handleRewriteUpdate (init_app\<lparr>clause_rewrites := [3 \<mapsto> lit ''Old.'']\<rparr>) 7
      (lit ''Revised clause.'')) 7 = Some (lit ''Revised clause.'')
   \<and> clause_rewrites (handleRewriteUpdate (init_app\<lparr>clause_rewrites := [3 \<mapsto> lit ''Old.'']\<rparr>) 7
      (lit ''Revised clause.'')) 3 = Some (lit ''Old.'')"
  using handleRewriteUpdate_frame [of "init_app\<lparr>clause_rewrites := [3 \<mapsto> lit ''Old.'']\<rparr>" 7
      "lit ''Revised clause.''"]
  by (simp add: init_app_def)

text \<open>
  C3, as amended. When extraction fails, the application state is unchanged. When the
  analysis call fails, the state afterwards has no document text, no rewrites and is not
  loading, its analysis and active tab are those held before, and its document name is
  the name of the document that failed; so from a pre-upload state (no document text, not
  loading, no rewrites) the state afterwards is the pre-upload state except for the
  document name.
\<close>

theorem failed_load_state:
  "(extractTextFromFile libs f = Inl e \<longrightarrow> app (snd (upload_file libs apiKey ai u w f)) = app w)
   \<and> (fst (analyzeDocument apiKey ai (svc w) t) = Inl e' \<longrightarrow>
        app (handleDocumentLoaded apiKey ai w t name)
          = (app w)\<lparr>documentText := None, docName := name, isLoading := False,
                     clause_rewrites := Map.empty\<rparr>)
   \<and> (fst (analyzeDocument apiKey ai (svc w) t) = Inl e' \<and> documentText (app w) = None
        \<and> \<not> isLoading (app w) \<and> clause_rewrites (app w) = Map.empty \<longrightarrow>
        app (handleDocumentLoaded apiKey ai w t name) = (app w)\<lparr>docName := name\<rparr>)"
proof -
  have a: "app (snd (upload_file libs apiKey ai u w f)) = app w"
    if "extractTextFromFile libs f = Inl e"
    using that by (cases e) (simp add: upload_file_def processFile_def show_alert_def)
  have b: "app (handleDocumentLoaded apiKey ai w t name)
          = (app w)\<lparr>documentText := None, docName := name, isLoading := False,
                     clause_rewrites := Map.empty\<rparr>"
    if "fst (analyzeDocument apiKey ai (svc w) t) = Inl e'"
    using that
    by (cases "analyzeDocument apiKey ai (svc w) t") (simp add: handleDocumentLoaded_def)
  have c: "(app w)\<lparr>documentText := None, docName := name, isLoading := False,
                     clause_rewrites := Map.empty\<rparr> = (app w)\<lparr>docName := name\<rparr>"
    if "documentText (app w) = None" "\<not> isLoading (app w)" "clause_rewrites (app w) = Map.empty"
    using that by (cases "app w") simp
  show ?thesis using a b c by simp
qed

theorem failed_load_state_witness:
  "extractTextFromFile (text_libs []) (mk_file (lit ''a.docx'') (lit ''application/msword''))
      = Inl (Error (lit ''Unsupported file type. Please use .txt, .pdf, .jpg, or .png.''))
   \<and> app (snd (upload_file (text_libs []) (Some (lit ''k'')) silent_ai init_upload init_world
        (mk_file (lit ''a.docx'') (lit ''application/msword'')))) = init_app
   \<and> fst (analyzeDocument (Some (lit ''k'')) silent_ai (svc init_world) (lit ''Lease''))
      = Inl (Error (lit ''No response from AI''))
   \<and> app (handleDocumentLoaded (Some (lit ''k'')) silent_ai init_world (lit ''Lease'') (lit ''lease.txt''))
      = init_app\<lparr>docName := lit ''lease.txt''\<rparr>"
proof -
  have h1: "extractTextFromFile (text_libs []) (mk_file (lit ''a.docx'') (lit ''application/msword''))
      = Inl (Error (lit ''Unsupported file type. Please use .txt, .pdf, .jpg, or .png.''))"
    by (simp add: extractTextFromFile_def mk_file_def endsWith_def startsWith_def lit_def)
  have h2: "fst (analyzeDocument (Some (lit ''k'')) silent_ai (svc init_world) (lit ''Lease''))
      = Inl (Error (lit ''No response from AI''))"
    by (simp add: analyzeDocument_def silent_ai_def falsy_def lit_def Let_def)
  have h3: "documentText (app init_world) = None \<and> \<not> isLoading (app init_world)
      \<and> clause_rewrites (app init_world) = Map.empty \<and> app init_world = init_app"
    by (simp add: init_world_def init_app_def)
  show ?thesis
    using failed_load_state [of "text_libs []" "mk_file (lit ''a.docx'') (lit ''application/msword'')"
        "Error (lit ''Unsupported file type. Please use .txt, .pdf, .jpg, or .png.'')"
        "Some (lit ''k'')" silent_ai init_upload init_world "lit ''Lease''"
        "Error (lit ''No response from AI'')" "lit ''lease.txt''"] h1 h2 h3
    by (simp add: init_app_def)
qed

text \<open>
  C3 as stated fails: from the initial state, uploading \<open>lease.txt\<close> when the model
  returns no text leaves the name \<open>lease.txt\<close> in the state, which is then not the
  pre-upload state.
\<close>

theorem failed_analysis_keeps_name_counterexample:
  "fst (analyzeDocument (Some (lit ''k'')) silent_ai (svc init_world) (lit ''Lease''))
      = Inl (Error (lit ''No response from AI''))
   \<and> docName (app init_world) = []
   \<and> docName (app (snd (upload_file (text_libs (lit ''Lease'')) (Some (lit ''k'')) silent_ai
        init_upload init_world (mk_file (lit ''lease.txt'') (lit ''text/plain''))))) = lit ''lease.txt''
   \<and> app (snd (upload_file (text_libs (lit ''Lease'')) (Some (lit ''k'')) silent_ai
        init_upload init_world (mk_file (lit ''lease.txt'') (lit ''text/plain'')))) \<noteq> app init_world"
proof -
  have a: "fst (analyzeDocument (Some (lit ''k'')) silent_ai (svc init_world) (lit ''Lease''))
      = Inl (Error (lit ''No response from AI''))"
    by (simp add: analyzeDocument_def silent_ai_def falsy_def lit_def Let_def)
  have e: "extractTextFromFile (text_libs (lit ''Lease'')) (mk_file (lit ''lease.txt'') (lit ''text/plain''))
      = Inr (lit ''Lease'')"
    by (simp add: extractTextFromFile_def text_libs_def mk_file_def)
  have i: "\<not> includes_str (lit ''Lease'') (lit ''Unable to extract'')"
    by (simp add: lit_def startsWith_def)
  have n: "docName (app (snd (upload_file (text_libs (lit ''Lease'')) (Some (lit ''k'')) silent_ai
        init_upload init_world (mk_file (lit ''lease.txt'') (lit ''text/plain''))))) = lit ''lease.txt''"
    using a e i
    by (cases "analyzeDocument (Some (lit ''k'')) silent_ai (svc init_world) (lit ''Lease'')")
      (simp add: upload_file_def processFile_def handleDocumentLoaded_def mk_file_def)
  have z: "docName (app init_world) = []"
    by (simp add: init_world_def init_app_def)
  have "lit ''lease.txt'' \<noteq> []"
    by (simp add: lit_def)
  with n z have "app (snd (upload_file (text_libs (lit ''Lease'')) (Some (lit ''k'')) silent_ai
        init_upload init_world (mk_file (lit ''lease.txt'') (lit ''text/plain'')))) \<noteq> app init_world"
    by metis
  with a n z show ?thesis by simp
qed

section \<open>Properties of the PDF export\<close>

lemma doc_ops_apply_op: "doc_ops (apply_op c d) = doc_ops d @ [c]"
  by (cases c) (simp_all add: apply_op.simps)

lemma renders_apply_op:
  "renders_heading h (apply_op c d) = (renders_heading h d \<or> is_heading h c)"
  by (simp add: renders_heading_def doc_ops_apply_op)

lemma renders_run_ops:
  "renders_heading h (run_ops cs d) = (renders_heading h d \<or> list_ex (is_heading h) cs)"
  unfolding run_ops_def
  by (induction cs arbitrary: d) (auto simp add: renders_apply_op)

lemma renders_steps_loop:
  "renders_heading h (fst (steps_loop lib xs d y)) = renders_heading h d"
  by (induction xs arbitrary: d y) (simp_all add: Let_def renders_apply_op)

lemma renders_flags_loop:
  "renders_heading h (fst (flags_loop lib xs d y)) = renders_heading h d"
  by (induction xs arbitrary: d y) (simp_all add: Let_def renders_apply_op)

lemma not_startsWith_append: "\<not> startsWith h p \<Longrightarrow> p @ x \<noteq> h"
  by (auto simp add: startsWith_def)

lemma renders_clause_block:
  assumes "\<not> startsWith h (lit ''Clause: '')" and "h \<noteq> lit ''Safe Rewrite Suggested:''"
  shows "renders_heading h (fst (clause_block lib rw c d y)) = renders_heading h d"
  using assms not_startsWith_append [OF assms(1)]
  by (simp add: clause_block_def Let_def renders_apply_op renders_run_ops eq_commute [of h])

lemma renders_clauses_loop:
  assumes "\<not> startsWith h (lit ''Clause: '')" and "h \<noteq> lit ''Safe Rewrite Suggested:''"
  shows "renders_heading h (fst (clauses_loop lib rw cs d y)) = renders_heading h d"
proof (induction cs arbitrary: d y)
  case Nil
  then show ?case by simp
next
  case (Cons c cs)
  obtain d' y' where b: "clause_block lib rw c d y = (d', y')"
    by (cases "clause_block lib rw c d y")
  have "renders_heading h d' = renders_heading h d"
    using renders_clause_block [OF assms, of lib rw c d y] b by simp
  with Cons b show ?case by simp
qed

lemma renders_next_steps_section:
  "renders_heading h (fst (next_steps_section lib a d y))
     = (renders_heading h d \<or> (nextSteps a \<noteq> [] \<and> h = lit ''Recommended Next Steps''))"
  by (auto simp add: next_steps_section_def Let_def renders_steps_loop renders_run_ops)

lemma renders_red_flags_section:
  "renders_heading h (fst (red_flags_section lib a d y))
     = (renders_heading h d \<or> (redFlags a \<noteq> [] \<and> h = lit ''Critical Red Flags''))"
  by (auto simp add: red_flags_section_def Let_def renders_flags_loop renders_run_ops renders_apply_op)

lemma renders_clauses_section:
  assumes "\<not> startsWith h (lit ''Clause: '')" and "h \<noteq> lit ''Safe Rewrite Suggested:''"
  shows "renders_heading h (fst (clauses_section lib rw a d y))
     = (renders_heading h d \<or> h = lit ''Detailed Clause Analysis'')"
  by (auto simp add: clauses_section_def renders_clauses_loop [OF assms] renders_run_ops)

lemma footer_no_heading:
  "\<not> list_ex (is_heading h) (concat (map (footer_ops lib n) js))"
  by (induction js) (simp_all add: footer_ops_def)

lemma renders_export_footer:
  "renders_heading h (export_footer lib d) = renders_heading h d"
  by (simp add: export_footer_def renders_run_ops footer_no_heading)

lemma renders_new_jsPDF: "\<not> renders_heading h new_jsPDF"
  by (simp add: renders_heading_def new_jsPDF_def)

lemma renders_export_top:
  "renders_heading h (fst (export_top lib name a new_jsPDF))
     = (h = lit ''LegalLens India Analysis'' \<or> h = lit ''Document: '' @ name
        \<or> h = lit ''Domain: '' @ domain_str (domain a) @ lit ''   |   Risk Score: ''
                @ num_toString (overallRiskScore a) @ lit ''/100'')"
  by (auto simp add: export_top_def Let_def renders_apply_op renders_run_ops renders_new_jsPDF)

lemma renders_export_doc:
  assumes "\<not> startsWith h (lit ''Clause: '')" and "h \<noteq> lit ''Safe Rewrite Suggested:''"
    and "h \<noteq> lit ''Detailed Clause Analysis''" and "h \<noteq> lit ''LegalLens India Analysis''"
    and "\<not> startsWith h (lit ''Document: '')" and "\<not> startsWith h (lit ''Domain: '')"
  shows "renders_heading h (export_doc lib name rw a)
     = ((nextSteps a \<noteq> [] \<and> h = lit ''Recommended Next Steps'')
        \<or> (redFlags a \<noteq> [] \<and> h = lit ''Critical Red Flags''))"
proof -
  obtain d1 y1 where e1: "export_top lib name a new_jsPDF = (d1, y1)"
    by (cases "export_top lib name a new_jsPDF")
  obtain d2 y2 where e2: "next_steps_section lib a d1 y1 = (d2, y2)"
    by (cases "next_steps_section lib a d1 y1")
  obtain d3 y3 where e3: "red_flags_section lib a d2 y2 = (d3, y3)"
    by (cases "red_flags_section lib a d2 y2")
  obtain d4 y4 where e4: "clauses_section lib rw a d3 y3 = (d4, y4)"
    by (cases "clauses_section lib rw a d3 y3")
  have r1: "\<not> renders_heading h d1"
    using renders_export_top [of h lib name a] e1 assms(4)
      not_startsWith_append [OF assms(5)] not_startsWith_append [OF assms(6)]
    by (auto simp add: eq_commute [of h])
  have r2: "renders_heading h d2 = (nextSteps a \<noteq> [] \<and> h = lit ''Recommended Next Steps'')"
    using renders_next_steps_section [of h lib a d1 y1] e2 r1 by simp
  have r3: "renders_heading h d3 = (renders_heading h d2 \<or> (redFlags a \<noteq> [] \<and> h = lit ''Critical Red Flags''))"
    using renders_red_flags_section [of h lib a d2 y2] e3 by simp
  have r4: "renders_heading h d4 = renders_heading h d3"
    using renders_clauses_section [OF assms(1,2), of lib rw a d3 y3] e4 assms(3) by simp
  have "renders_heading h (export_doc lib name rw a) = renders_heading h d4"
    by (simp add: export_doc_def e1 e2 e3 e4 renders_apply_op renders_export_footer)
  with r2 r3 r4 show ?thesis by simp
qed

lemma has_lines_apply_op:
  "has_lines ls (apply_op c d) = (has_lines ls d \<or> is_lines ls c)"
  by (simp add: has_lines_def doc_ops_apply_op)

lemma has_lines_run_ops:
  "has_lines ls (run_ops cs d) = (has_lines ls d \<or> list_ex (is_lines ls) cs)"
  unfolding run_ops_def
  by (induction cs arbitrary: d) (auto simp add: has_lines_apply_op)

lemma font_apply_TextLines:
  "doc_font (apply_op (TextLines ls x y) d) = doc_font d"
  "doc_fontSize (apply_op (TextLines ls x y) d) = doc_fontSize d"
  by (simp_all add: apply_op.simps)

lemma font_apply_AddPage:
  "doc_font (apply_op AddPage d) = doc_font d"
  "doc_fontSize (apply_op AddPage d) = doc_fontSize d"
  by (simp_all add: apply_op.simps)

lemma keeps_steps_loop:
  "has_lines ls d \<Longrightarrow> has_lines ls (fst (steps_loop lib xs d y))"
  by (induction xs arbitrary: d y) (simp_all add: Let_def has_lines_apply_op)

lemma keeps_flags_loop:
  "has_lines ls d \<Longrightarrow> has_lines ls (fst (flags_loop lib xs d y))"
  by (induction xs arbitrary: d y) (simp_all add: Let_def has_lines_apply_op)

lemma keeps_clause_block:
  "has_lines ls d \<Longrightarrow> has_lines ls (fst (clause_block lib rw c d y))"
  by (simp add: clause_block_def Let_def has_lines_apply_op has_lines_run_ops)

lemma keeps_clauses_loop:
  "has_lines ls d \<Longrightarrow> has_lines ls (fst (clauses_loop lib rw cs d y))"
proof (induction cs arbitrary: d y)
  case Nil
  then show ?case by simp
next
  case (Cons c cs)
  obtain d' y' where b: "clause_block lib rw c d y = (d', y')"
    by (cases "clause_block lib rw c d y")
  have "has_lines ls d'"
    using keeps_clause_block [OF Cons.prems, of lib rw c y] b by simp
  then show ?case using Cons.IH b by simp
qed

lemma keeps_red_flags_section:
  "has_lines ls d \<Longrightarrow> has_lines ls (fst (red_flags_section lib a d y))"
  by (simp add: red_flags_section_def Let_def keeps_flags_loop has_lines_run_ops has_lines_apply_op)

lemma keeps_clauses_section:
  "has_lines ls d \<Longrightarrow> has_lines ls (fst (clauses_section lib rw a d y))"
  by (simp add: clauses_section_def keeps_clauses_loop has_lines_run_ops)

lemma keeps_export_footer:
  "has_lines ls d \<Longrightarrow> has_lines ls (export_footer lib d)"
  by (simp add: export_footer_def has_lines_run_ops)

lemma steps_loop_renders:
  assumes "t \<in> set xs" and "doc_font d = (helvetica, lit ''normal'')" and "doc_fontSize d = 10"
  shows "has_lines (bullet_lines lib t) (fst (steps_loop lib xs d y))"
  using assms
proof (induction xs arbitrary: d y)
  case Nil
  then show ?case by simp
next
  case (Cons x xs)
  show ?case
  proof (cases "t = x")
    case True
    then show ?thesis
      using Cons.prems(2,3)
      by (simp add: Let_def keeps_steps_loop has_lines_apply_op split_text_def bullet_lines_def)
  next
    case False
    with Cons.prems have "t \<in> set xs" by simp
    then show ?thesis
      using Cons.IH Cons.prems(2,3)
      by (simp add: Let_def font_apply_TextLines font_apply_AddPage)
  qed
qed

lemma flags_loop_renders:
  assumes "t \<in> set xs" and "doc_font d = (helvetica, lit ''normal'')" and "doc_fontSize d = 10"
  shows "has_lines (bullet_lines lib t) (fst (flags_loop lib xs d y))"
  using assms
proof (induction xs arbitrary: d y)
  case Nil
  then show ?case by simp
next
  case (Cons x xs)
  show ?case
  proof (cases "t = x")
    case True
    then show ?thesis
      using Cons.prems(2,3)
      by (simp add: Let_def keeps_flags_loop has_lines_apply_op split_text_def bullet_lines_def)
  next
    case False
    with Cons.prems have "t \<in> set xs" by simp
    then show ?thesis
      using Cons.IH Cons.prems(2,3)
      by (simp add: Let_def font_apply_TextLines)
  qed
qed

lemma next_steps_section_renders:
  assumes "t \<in> set (nextSteps a)"
  shows "has_lines (bullet_lines lib t) (fst (next_steps_section lib a d y))"
proof -
  from assms have "nextSteps a \<noteq> []" by auto
  then show ?thesis
    using assms
    by (simp add: next_steps_section_def Let_def steps_loop_renders run_ops_def apply_op.simps)
qed

lemma red_flags_section_renders:
  assumes "t \<in> set (redFlags a)"
  shows "has_lines (bullet_lines lib t) (fst (red_flags_section lib a d y))"
proof -
  from assms have "redFlags a \<noteq> []" by auto
  then show ?thesis
    using assms
    by (simp add: red_flags_section_def Let_def flags_loop_renders run_ops_def apply_op.simps)
qed

lemma export_doc_renders_items:
  "(t \<in> set (nextSteps a) \<longrightarrow> has_lines (bullet_lines lib t) (export_doc lib name rw a))
   \<and> (t \<in> set (redFlags a) \<longrightarrow> has_lines (bullet_lines lib t) (export_doc lib name rw a))"
proof -
  obtain d1 y1 where e1: "export_top lib name a new_jsPDF = (d1, y1)"
    by (cases "export_top lib name a new_jsPDF")
  obtain d2 y2 where e2: "next_steps_section lib a d1 y1 = (d2, y2)"
    by (cases "next_steps_section lib a d1 y1")
  obtain d3 y3 where e3: "red_flags_section lib a d2 y2 = (d3, y3)"
    by (cases "red_flags_section lib a d2 y2")
  obtain d4 y4 where e4: "clauses_section lib rw a d3 y3 = (d4, y4)"
    by (cases "clauses_section lib rw a d3 y3")
  have tail: "has_lines ls (export_doc lib name rw a)" if "has_lines ls d3" for ls
  proof -
    have "has_lines ls d4"
      using keeps_clauses_section [OF that, of lib rw a y3] e4 by simp
    then show ?thesis
      by (simp add: export_doc_def e1 e2 e3 e4 has_lines_apply_op keeps_export_footer)
  qed
  have n: "has_lines (bullet_lines lib t) d3" if "t \<in> set (nextSteps a)"
  proof -
    have "has_lines (bullet_lines lib t) d2"
      using next_steps_section_renders [OF that, of lib d1 y1] e2 by simp
    then show ?thesis
      using keeps_red_flags_section [of "bullet_lines lib t" d2 lib a y2] e3 by simp
  qed
  have r: "has_lines (bullet_lines lib t) d3" if "t \<in> set (redFlags a)"
    using red_flags_section_renders [OF that, of lib d2 y2] e3 by simp
  from tail n r show ?thesis by blast
qed

text \<open>
  C6. When an analysis is present, the export produces a document in which the heading
  "Critical Red Flags" is rendered if and only if the red-flag list is non-empty, and the
  heading "Recommended Next Steps" if and only if the next-steps list is non-empty; every
  item of either list is rendered as the lines of its bulleted text; and a section whose
  list is empty makes no call on the document and takes no vertical space.
\<close>

theorem export_sections_iff:
  assumes "analysis s = Some a"
  shows "\<exists>d. handleExportPDF lib s = Some d
       \<and> (renders_heading (lit ''Critical Red Flags'') d \<longleftrightarrow> redFlags a \<noteq> [])
       \<and> (renders_heading (lit ''Recommended Next Steps'') d \<longleftrightarrow> nextSteps a \<noteq> [])
       \<and> (\<forall>t \<in> set (redFlags a). has_lines (bullet_lines lib t) d)
       \<and> (\<forall>t \<in> set (nextSteps a). has_lines (bullet_lines lib t) d)
       \<and> (redFlags a = [] \<longrightarrow> (\<forall>d' y. red_flags_section lib a d' y = (d', y)))
       \<and> (nextSteps a = [] \<longrightarrow> (\<forall>d' y. next_steps_section lib a d' y = (d', y)))"
proof -
  let ?d = "export_doc lib (docName s) (clause_rewrites s) a"
  have e: "handleExportPDF lib s = Some ?d"
    using assms by (simp add: handleExportPDF_def)
  have r: "renders_heading (lit ''Critical Red Flags'') ?d \<longleftrightarrow> redFlags a \<noteq> []"
    by (subst renders_export_doc) (simp_all add: lit_def startsWith_def)
  have n: "renders_heading (lit ''Recommended Next Steps'') ?d \<longleftrightarrow> nextSteps a \<noteq> []"
    by (subst renders_export_doc) (simp_all add: lit_def startsWith_def)
  have i: "\<forall>t \<in> set (redFlags a). has_lines (bullet_lines lib t) ?d"
    "\<forall>t \<in> set (nextSteps a). has_lines (bullet_lines lib t) ?d"
    using export_doc_renders_items [of _ a lib "docName s" "clause_rewrites s"] by blast+
  have o: "redFlags a = [] \<longrightarrow> (\<forall>d' y. red_flags_section lib a d' y = (d', y))"
    "nextSteps a = [] \<longrightarrow> (\<forall>d' y. next_steps_section lib a d' y = (d', y))"
    by (simp_all add: red_flags_section_def next_steps_section_def)
  from e r n i o show ?thesis by simp
qed

theorem export_sections_iff_witness:
  "analysis (init_app\<lparr>docName := lit ''lease.txt'', analysis := Some sample_analysis\<rparr>)
      = Some sample_analysis
   \<and> redFlags sample_analysis = []
   \<and> nextSteps sample_analysis = [lit ''Register the agreement.'']
   \<and> (\<exists>d. handleExportPDF plain_jspdf
              (init_app\<lparr>docName := lit ''lease.txt'', analysis := Some sample_analysis\<rparr>) = Some d
          \<and> \<not> renders_heading (lit ''Critical Red Flags'') d
          \<and> renders_heading (lit ''Recommended Next Steps'') d
          \<and> has_lines [bullet @ lit '' Register the agreement.''] d)"
proof -
  let ?s = "init_app\<lparr>docName := lit ''lease.txt'', analysis := Some sample_analysis\<rparr>"
  have h: "analysis ?s = Some sample_analysis"
    by (simp add: init_app_def)
  have rf: "redFlags sample_analysis = []"
    and ns: "nextSteps sample_analysis = [lit ''Register the agreement.'']"
    by (simp_all add: sample_analysis_def)
  have bl: "bullet_lines plain_jspdf (lit ''Register the agreement.'')
      = [bullet @ lit '' Register the agreement.'']"
    by (simp add: bullet_lines_def plain_jspdf_def lit_def)
  from export_sections_iff [OF h, of plain_jspdf] obtain d where
    d: "handleExportPDF plain_jspdf ?s = Some d"
      "renders_heading (lit ''Critical Red Flags'') d \<longleftrightarrow> redFlags sample_analysis \<noteq> []"
      "renders_heading (lit ''Recommended Next Steps'') d \<longleftrightarrow> nextSteps sample_analysis \<noteq> []"
      "\<forall>t \<in> set (nextSteps sample_analysis). has_lines (bullet_lines plain_jspdf t) d"
    by blast
  from d(4) ns bl have "has_lines [bullet @ lit '' Register the agreement.''] d"
    by simp
  moreover from d(2) rf have "\<not> renders_heading (lit ''Critical Red Flags'') d"
    by simp
  moreover from d(3) ns have "renders_heading (lit ''Recommended Next Steps'') d"
    by simp
  ultimately show ?thesis
    using h rf ns d(1) by blast
qed

section \<open>Properties of the clause panel\<close>

lemma filter_id_at_most_one:
  fixes cs :: "Clause list"
  shows "distinct (map clause_id cs) \<Longrightarrow> length (filter (\<lambda>c. clause_id c = k) cs) \<le> 1"
proof (induction cs)
  case Nil
  then show ?case by simp
next
  case (Cons c cs)
  show ?case
  proof (cases "clause_id c = k")
    case True
    with Cons.prems have "k \<notin> clause_id ` set cs" by auto
    then have "filter (\<lambda>c. clause_id c = k) cs = []" by (auto simp add: filter_empty_conv)
    with True show ?thesis by simp
  next
    case False
    with Cons show ?thesis by simp
  qed
qed

text \<open>
  C7. For distinct clause ids \<open>A\<close> and \<open>B\<close>: selecting \<open>B\<close> while \<open>A\<close> is expanded leaves
  exactly \<open>B\<close> expanded; selecting \<open>A\<close> while \<open>A\<close> is expanded leaves no clause expanded;
  and in every expansion state at most one id is expanded, so at most one clause of a
  list of clauses with distinct ids.
\<close>

theorem toggleClause_exclusive:
  assumes "A \<noteq> B"
  shows "toggleClause (Some A) B = Some B
       \<and> (\<forall>k. is_expanded (toggleClause (Some A) B) k \<longleftrightarrow> k = B)
       \<and> toggleClause (Some A) A = None
       \<and> (\<forall>k. \<not> is_expanded (toggleClause (Some A) A) k)
       \<and> (\<forall>e k k'. is_expanded e k \<and> is_expanded e k' \<longrightarrow> k = k')
       \<and> (\<forall>e (cs :: Clause list). distinct (map clause_id cs) \<longrightarrow>
             length (filter (\<lambda>c. is_expanded e (clause_id c)) cs) \<le> 1)"
proof -
  have "length (filter (\<lambda>c. is_expanded e (clause_id c)) cs) \<le> 1"
    if "distinct (map clause_id cs)" for e and cs :: "Clause list"
  proof (cases e)
    case None
    then show ?thesis by (simp add: is_expanded_def)
  next
    case (Some k)
    then show ?thesis
      using filter_id_at_most_one [OF that, of k] by (simp add: is_expanded_def eq_commute)
  qed
  then show ?thesis
    using assms by (auto simp add: toggleClause_def is_expanded_def)
qed

theorem toggleClause_exclusive_witness:
  "(1::int) \<noteq> 2
   \<and> toggleClause (Some 1) 2 = Some 2
   \<and> is_expanded (toggleClause (Some 1) 2) 2
   \<and> \<not> is_expanded (toggleClause (Some 1) 2) 1
   \<and> toggleClause (Some 1) 1 = None
   \<and> \<not> is_expanded (toggleClause (Some 1) 1) 1"
  using toggleClause_exclusive [of 1 2]
  by (simp add: is_expanded_def)

section \<open>Properties of the upload panel\<close>

text \<open>
  C9. When extraction succeeds with a text that contains "Unable to extract",
  \<open>processFile\<close> does not call \<open>onDataLoaded\<close> and raises no alert: whatever these two
  are, the rest of the application is left as it was, and the panel is in paste mode with
  the placeholder message. As the shell mounts the panel, the whole application state,
  the analysis client and the notifications are unchanged.
\<close>

theorem unable_to_extract_text_dropped:
  assumes "extractTextFromFile libs f = Inr t"
    and "includes_str t (lit ''Unable to extract'')"
  shows "processFile libs onDataLoaded alert u w f
           = (u\<lparr>upload_mode := ModePaste,
                manualText := lit ''Could not auto-parse PDF in this demo. Please paste content here.'',
                isProcessing := False\<rparr>, w)
       \<and> snd (upload_file libs apiKey ai u w' f) = w'"
  using assms by (simp add: processFile_def upload_file_def)

theorem unable_to_extract_text_dropped_witness:
  "extractTextFromFile (text_libs (lit ''Tenant is Unable to extract water.''))
      (mk_file (lit ''lease.txt'') (lit ''text/plain'')) = Inr (lit ''Tenant is Unable to extract water.'')
   \<and> includes_str (lit ''Tenant is Unable to extract water.'') (lit ''Unable to extract'')
   \<and> processFile (text_libs (lit ''Tenant is Unable to extract water.'')) log_loaded no_alert init_upload []
        (mk_file (lit ''lease.txt'') (lit ''text/plain''))
      = (init_upload\<lparr>upload_mode := ModePaste,
            manualText := lit ''Could not auto-parse PDF in this demo. Please paste content here.'',
            isProcessing := False\<rparr>, [])"
proof -
  have h1: "extractTextFromFile (text_libs (lit ''Tenant is Unable to extract water.''))
      (mk_file (lit ''lease.txt'') (lit ''text/plain'')) = Inr (lit ''Tenant is Unable to extract water.'')"
    by (simp add: extractTextFromFile_def text_libs_def mk_file_def)
  have h2: "includes_str (lit ''Tenant is Unable to extract water.'') (lit ''Unable to extract'')"
    by (simp add: lit_def startsWith_def)
  show ?thesis
    using unable_to_extract_text_dropped [OF h1 h2, of log_loaded no_alert init_upload "[]"] h1 h2
    by simp
qed

section \<open>Properties of the chat panel\<close>

lemma last_dec_nat: "last (dec_nat n) = of_nat (48 + n mod 10)"
  by (subst dec_nat.simps) simp

lemma dec_nat_not_Nil: "dec_nat n \<noteq> []"
  by (subst dec_nat.simps) simp

lemma num_toString_not_err: "num_toString i \<noteq> lit ''err''"
proof
  assume "num_toString i = lit ''err''"
  then have "last (num_toString i) = last (lit ''err'')" by simp
  moreover define k where "k = 48 + nat \<bar>i\<bar> mod 10"
  moreover have "last (num_toString i) = of_nat k"
    by (simp add: k_def num_toString_def last_dec_nat dec_nat_not_Nil)
  moreover have "last (lit ''err'') = (114 :: 16 word)" by (simp add: lit_def)
  ultimately have "(of_nat k :: 16 word) = 114" by simp
  then have "unat (of_nat k :: 16 word) = 114" by simp
  then have "k mod 65536 = 114" by (simp add: unat_of_nat)
  moreover have "k < 58" by (simp add: k_def)
  ultimately show False by simp
qed

lemma handleSend_failed:
  assumes "trim t \<noteq> []" and "fst (sendMessageToChat ai v t) = Inl e"
  shows "messages (fst (handleSend ai clk (type_input t cw) v))
           = messages cw @ [user_message clk t, apology (date_reply clk)]"
  using assms
  by (cases "sendMessageToChat ai v t")
    (simp add: handleSend_def type_input_def user_message_def apology_def Let_def)

lemma handleSend_answered:
  assumes "trim t \<noteq> []" and "fst (sendMessageToChat ai v t) = Inr reply"
  shows "map msg_id (messages (fst (handleSend ai clk (type_input t cw) v)))
           = map msg_id (messages cw) @ [num_toString (now_user clk), num_toString (now_reply clk + 1)]"
  using assms
  by (cases "sendMessageToChat ai v t")
    (simp add: handleSend_def type_input_def Let_def)

text \<open>
  C10. A failed turn appends the user's message, whose id is the rendering of the clock
  reading and never \<open>err\<close>, and then a message with the constant id \<open>err\<close>; after two
  failed turns the transcript holds two messages with the id \<open>err\<close>, so its ids are not
  pairwise distinct. An answered turn appends two messages whose ids are the renderings
  of the clock reading and of the later clock reading plus one.
\<close>

theorem failed_turns_share_id:
  assumes "trim t1 \<noteq> []" and "trim t2 \<noteq> []"
    and "r1 = handleSend ai c1 (type_input t1 cw) v"
    and "r2 = handleSend ai c2 (type_input t2 (fst r1)) (snd r1)"
    and "fst (sendMessageToChat ai v t1) = Inl e1"
    and "fst (sendMessageToChat ai (snd r1) t2) = Inl e2"
  shows "messages (fst r2)
           = messages cw @ [user_message c1 t1, apology (date_reply c1),
                            user_message c2 t2, apology (date_reply c2)]
       \<and> msg_id (apology (date_reply c1)) = lit ''err''
       \<and> msg_id (apology (date_reply c2)) = lit ''err''
       \<and> msg_id (user_message c1 t1) = num_toString (now_user c1)
       \<and> msg_id (user_message c1 t1) \<noteq> lit ''err''
       \<and> \<not> distinct (map msg_id (messages (fst r2)))
       \<and> (\<forall>t3 c3 cw3 v3 reply. trim t3 \<noteq> [] \<and> fst (sendMessageToChat ai v3 t3) = Inr reply \<longrightarrow>
             map msg_id (messages (fst (handleSend ai c3 (type_input t3 cw3) v3)))
               = map msg_id (messages cw3)
                 @ [num_toString (now_user c3), num_toString (now_reply c3 + 1)])"
proof -
  have m1: "messages (fst r1) = messages cw @ [user_message c1 t1, apology (date_reply c1)]"
    using assms(1,3,5) handleSend_failed by simp
  have m2: "messages (fst r2) = messages (fst r1) @ [user_message c2 t2, apology (date_reply c2)]"
    using assms(2,4,6) handleSend_failed by simp
  have ids: "msg_id (apology (date_reply c1)) = lit ''err''"
    "msg_id (apology (date_reply c2)) = lit ''err''"
    by (simp_all add: apology_def)
  have "\<not> distinct (map msg_id (messages (fst r2)))"
    using m1 m2 ids by simp
  then show ?thesis
    using m1 m2 ids num_toString_not_err handleSend_answered by (simp add: user_message_def)
qed

theorem failed_turns_share_id_witness:
  "trim (lit ''Hi'') \<noteq> [] \<and> trim (lit ''Why?'') \<noteq> []
   \<and> fst (sendMessageToChat silent_ai init_service (lit ''Hi''))
       = Inl (Error (lit ''Chat session not initialized''))
   \<and> map msg_id (messages (fst (handleSend silent_ai (clock_at 2000) (type_input (lit ''Why?'')
        (fst (handleSend silent_ai (clock_at 1000) (type_input (lit ''Hi'') (init_chat_window 0))
           init_service)))
        (snd (handleSend silent_ai (clock_at 1000) (type_input (lit ''Hi'') (init_chat_window 0))
           init_service)))))
       = [lit ''1'', num_toString 1000, lit ''err'', num_toString 2000, lit ''err'']
   \<and> \<not> distinct [lit ''1'', num_toString 1000, lit ''err'', num_toString 2000, lit ''err'']"
proof -
  have t: "trim (lit ''Hi'') \<noteq> []" "trim (lit ''Why?'') \<noteq> []"
    by (simp_all add: trim_def lit_def is_space_def)
  have f: "fst (sendMessageToChat silent_ai init_service (lit ''Hi''))
       = Inl (Error (lit ''Chat session not initialized''))"
    "fst (sendMessageToChat silent_ai init_service (lit ''Why?''))
       = Inl (Error (lit ''Chat session not initialized''))"
    by (simp_all add: sendMessageToChat_def init_service_def)
  have v: "snd (handleSend silent_ai (clock_at 1000) (type_input (lit ''Hi'') (init_chat_window 0))
           init_service) = init_service"
    using t(1) by (simp add: handleSend_def type_input_def sendMessageToChat_def init_service_def Let_def)
  have f2: "fst (sendMessageToChat silent_ai
      (snd (handleSend silent_ai (clock_at 1000) (type_input (lit ''Hi'') (init_chat_window 0))
           init_service)) (lit ''Why?'')) = Inl (Error (lit ''Chat session not initialized''))"
    using f(2) by (simp only: v)
  show ?thesis
    using failed_turns_share_id [where ?t1.0 = "lit ''Hi''" and ?t2.0 = "lit ''Why?''"
        and ai = silent_ai and ?c1.0 = "clock_at 1000" and ?c2.0 = "clock_at 2000"
        and cw = "init_chat_window 0" and v = init_service, OF t refl refl f(1) f2] t f(1)
    by (simp add: user_message_def apology_def clock_at_def init_chat_window_def greeting_def)
qed

end
